theory Spec2Isabelle
  imports Main "HOL-Library.Word"
begin

unbundle bit_operations_syntax

section \<open>The socket close path of net/net-close.c\<close>

text \<open>
  The embedding follows \<^verbatim>\<open>net/net-close.c\<close> as it is compiled with \<^verbatim>\<open>CONFIG_NET\<close>,
  \<^verbatim>\<open>CONFIG_NET_TCP\<close> and \<^verbatim>\<open>CONFIG_NET_UDP\<close> defined, so that every conditional section
  of the file is present. The debug output of \<^verbatim>\<open>nvdbg\<close> has no effect on the data and is
  left out.

  Pointers are addresses into one store per structure type, and \<^verbatim>\<open>NULL\<close> is \<open>None\<close>.
  Functions of other translation units (\<^verbatim>\<open>irqsave\<close>, \<^verbatim>\<open>uip_unlisten\<close>,
  \<^verbatim>\<open>sockfd_release\<close>, ...) are recorded, in the order in which they are called, in the
  \<open>calls\<close> component of the state; of their effects only those on the fields that this
  file reads or writes are part of the state. \<^verbatim>\<open>netdev_txnotify\<close> is given the address of
  the connection's \<^verbatim>\<open>ripaddr\<close> and is recorded with the address stored there.
\<close>

subsection \<open>Data\<close>

type_synonym addr = nat
type_synonym uint8 = "8 word"
type_synonym uint16 = "16 word"

text \<open>
  The header constants that the file uses and that are defined elsewhere are parameters:
  the event bits of \<^verbatim>\<open>uip.h\<close> (integer constants, as the C preprocessor leaves them), the
  macro \<^verbatim>\<open>_SS_ISCONNECTED\<close> of \<^verbatim>\<open>net-internal.h\<close> on the 8-bit socket flags, and the error
  number \<^verbatim>\<open>EBADF\<close>.
\<close>

record net_defs =
  UIP_NEWDATA :: int
  UIP_CLOSE :: int
  UIP_ABORT :: int
  SS_ISCONNECTED :: "uint8 \<Rightarrow> bool"
  EBADF :: int

text \<open>The return values: "0 on success; -1 on error with errno set appropriately".\<close>

definition OK :: int where
  "OK = 0"

definition ERROR :: int where
  "ERROR = - 1"

text \<open>The socket types that the \<^verbatim>\<open>switch\<close> of \<^verbatim>\<open>net_close\<close> tells apart.\<close>

datatype sock_type = SOCK_STREAM | SOCK_DGRAM | SOCK_OTHER nat

text \<open>The value of the function pointer \<^verbatim>\<open>data_event\<close>: \<^verbatim>\<open>netclose_interrupt\<close> or the
  handler of another file.\<close>

datatype handler = Netclose_interrupt | Other_handler nat

record uip_conn =
  data_flags :: uint8
  data_private :: "addr option"
  data_event :: "handler option"
  ripaddr :: nat

record uip_driver_s =
  d_len :: uint16

text \<open>\<^verbatim>\<open>struct tcp_close_s\<close>; the semaphore is its count.\<close>

record tcp_close_s =
  cl_psock :: addr
  cl_sem :: int

record socket =
  s_crefs :: int
  s_type :: sock_type
  s_flags :: uint8
  s_conn :: addr

datatype call =
    Irqsave
  | Irqrestore bool
  | Sem_init addr
  | Sem_post addr
  | Sem_wait addr
  | Sem_destroy addr
  | Netdev_txnotify nat
  | Uip_unlisten addr
  | Uip_tcpfree addr
  | Uip_udpfree addr
  | Sockfd_release int

text \<open>
  The state: the descriptor table behind \<^verbatim>\<open>sockfd_socket\<close>, the stores of sockets,
  connection records, devices and close contexts, whether interrupts are disabled for
  the running task, the caller's \<^verbatim>\<open>errno\<close>, and the calls made so far.
\<close>

record net_state =
  sockfd_socket :: "int \<Rightarrow> addr option"
  socks :: "addr \<Rightarrow> socket"
  conns :: "addr \<Rightarrow> uip_conn"
  devs :: "addr \<Rightarrow> uip_driver_s"
  closes :: "addr \<Rightarrow> tcp_close_s"
  irq_off :: bool
  errno :: int
  calls :: "call list"

text \<open>A call either returns or leaves the task suspended, in the state given.\<close>

datatype 'a outcome = Returns 'a | Blocked net_state

subsection \<open>Collaborators\<close>

definition called :: "call \<Rightarrow> net_state \<Rightarrow> net_state" where
  "called c s = s\<lparr>calls := calls s @ [c]\<rparr>"

text \<open>
  Modelled from the spec: \<^verbatim>\<open>irqsave\<close> is not in this file. It is the entry of "a
  critical section that excludes interrupt/event delivery for this CPU": it disables
  interrupts and returns the state that it found.
\<close>

definition irqsave :: "net_state \<Rightarrow> bool \<times> net_state" where
  "irqsave s = (irq_off s, called Irqsave (s\<lparr>irq_off := True\<rparr>))"

text \<open>
  Modelled from the spec: \<^verbatim>\<open>irqrestore\<close> is not in this file. It leaves the critical
  section by putting back the interrupt state that it is given.
\<close>

definition irqrestore :: "bool \<Rightarrow> net_state \<Rightarrow> net_state" where
  "irqrestore flags s = called (Irqrestore flags) (s\<lparr>irq_off := flags\<rparr>)"

text \<open>
  Modelled from the spec: \<^verbatim>\<open>sem_init\<close> is not in this file. The spec's wait signal is
  "initially unset" and supports "initialize, wait, signal exactly once, destroy, with the
  guarantee that signaling before waiting is not lost": a count, which \<open>sem_init\<close> sets to
  the value given.
\<close>

definition sem_init :: "addr \<Rightarrow> int \<Rightarrow> net_state \<Rightarrow> net_state" where
  "sem_init p v s = called (Sem_init p) (s\<lparr>closes := (closes s)(p := (closes s p)\<lparr>cl_sem := v\<rparr>)\<rparr>)"

text \<open>
  Modelled from the spec: \<^verbatim>\<open>sem_post\<close> is not in this file. Signalling adds one to the
  count, so that a signal given before the wait is not lost.
\<close>

definition sem_post :: "addr \<Rightarrow> net_state \<Rightarrow> net_state" where
  "sem_post p s =
     called (Sem_post p) (s\<lparr>closes := (closes s)(p := (closes s p)\<lparr>cl_sem := cl_sem (closes s p) + 1\<rparr>)\<rparr>)"

text \<open>
  Modelled from the spec: \<^verbatim>\<open>sem_destroy\<close> is not in this file. It discards the wait
  signal, which is not used afterwards.
\<close>

definition sem_destroy :: "addr \<Rightarrow> net_state \<Rightarrow> net_state" where
  "sem_destroy p s = called (Sem_destroy p) s"

subsection \<open>The event notifier\<close>

text \<open>
  \<^verbatim>\<open>netclose_interrupt(dev, conn, flags)\<close>. The \<^verbatim>\<open>uint8\<close> flags are promoted to
  \<^verbatim>\<open>int\<close> for the bit operations with the integer constants, and the result is converted
  back to \<^verbatim>\<open>uint8\<close> on return.
\<close>

definition netclose_interrupt ::
  "net_defs \<Rightarrow> addr \<Rightarrow> addr \<Rightarrow> uint8 \<Rightarrow> net_state \<Rightarrow> net_state \<times> uint8" where
  "netclose_interrupt k dev conn flags s =
     (case data_private (conns s conn) of
        None \<Rightarrow> (s, flags)
      | Some pstate \<Rightarrow>
          if uint flags AND (UIP_CLOSE k OR UIP_ABORT k) \<noteq> 0
          then (sem_post pstate
                  (s\<lparr>conns := (conns s)(conn := (conns s conn)
                       \<lparr>data_flags := 0, data_private := None, data_event := None\<rparr>)\<rparr>),
                flags)
          else (s\<lparr>devs := (devs s)(dev := (devs s dev)\<lparr>d_len := 0\<rparr>)\<rparr>,
                word_of_int ((uint flags AND NOT (UIP_NEWDATA k)) OR UIP_CLOSE k)))"

text \<open>An event of the protocol engine: the device, the connection and the flags.\<close>

type_synonym event = "addr \<times> addr \<times> uint8"

text \<open>
  Modelled from the spec: the protocol engine is not in this file. The notifier is
  "invoked by the protocol engine whenever an event affecting this connection occurs",
  through the connection's event-callback reference. The flags that the callback returns
  go back to the engine. Handlers of other files do not touch the state of this one.
\<close>

definition uip_event :: "net_defs \<Rightarrow> event \<Rightarrow> net_state \<Rightarrow> net_state" where
  "uip_event k e s =
     (case e of (dev, conn, flags) \<Rightarrow>
        (case data_event (conns s conn) of
           Some Netclose_interrupt \<Rightarrow> fst (netclose_interrupt k dev conn flags s)
         | _ \<Rightarrow> s))"

text \<open>
  Modelled from the spec: the suspension of a task in \<^verbatim>\<open>sem_wait\<close>, which is not in
  this file, with the events that the engine delivers meanwhile. The caller goes on when
  the count is positive, which it takes; as long as it is not, the next event is
  delivered; with no event left and the count not positive the caller stays suspended.
  The interrupt state saved by \<^verbatim>\<open>irqsave\<close> belongs to the suspended task and does not
  hold off the engine ("so the event notifier can run and eventually release it").
\<close>

fun sem_block :: "net_defs \<Rightarrow> addr \<Rightarrow> event list \<Rightarrow> net_state \<Rightarrow> net_state outcome" where
  "sem_block k p [] s =
     (if 0 < cl_sem (closes s p)
      then Returns (s\<lparr>closes := (closes s)(p := (closes s p)\<lparr>cl_sem := cl_sem (closes s p) - 1\<rparr>)\<rparr>)
      else Blocked s)"
| "sem_block k p (e # es) s =
     (if 0 < cl_sem (closes s p)
      then Returns (s\<lparr>closes := (closes s)(p := (closes s p)\<lparr>cl_sem := cl_sem (closes s p) - 1\<rparr>)\<rparr>)
      else sem_block k p es (uip_event k e s))"

text \<open>
  Modelled from the spec: \<^verbatim>\<open>sem_wait\<close> is not in this file. "Block on the wait signal":
  the call, and then the suspension above.
\<close>

definition sem_wait :: "net_defs \<Rightarrow> addr \<Rightarrow> event list \<Rightarrow> net_state \<Rightarrow> net_state outcome" where
  "sem_wait k p evs s = sem_block k p evs (called (Sem_wait p) s)"

subsection \<open>The disconnect coordinator\<close>

text \<open>
  \<^verbatim>\<open>netclose_disconnect(psock)\<close>; \<open>state\<close> is the address of the automatic variable
  \<^verbatim>\<open>state\<close>, and \<open>evs\<close> are the events that occur while the caller is suspended.
\<close>

definition netclose_disconnect ::
  "net_defs \<Rightarrow> addr \<Rightarrow> addr \<Rightarrow> event list \<Rightarrow> net_state \<Rightarrow> net_state outcome" where
  "netclose_disconnect k state psock evs s0 =
     (let (flags, s1) = irqsave s0 in
      if SS_ISCONNECTED k (s_flags (socks s1 psock))
      then
        let s2 = s1\<lparr>closes := (closes s1)(state := (closes s1 state)\<lparr>cl_psock := psock\<rparr>)\<rparr>;
            s3 = sem_init state 0 s2;
            conn = s_conn (socks s3 psock);
            s4 = s3\<lparr>conns := (conns s3)(conn := (conns s3 conn)
                   \<lparr>data_flags := word_of_int (UIP_NEWDATA k OR UIP_CLOSE k OR UIP_ABORT k)\<rparr>)\<rparr>;
            s5 = s4\<lparr>conns := (conns s4)(conn := (conns s4 conn)\<lparr>data_private := Some state\<rparr>)\<rparr>;
            s6 = s5\<lparr>conns := (conns s5)(conn := (conns s5 conn)
                   \<lparr>data_event := Some Netclose_interrupt\<rparr>)\<rparr>;
            s7 = called (Netdev_txnotify (ripaddr (conns s6 conn))) s6
        in (case sem_wait k state evs s7 of
              Blocked b \<Rightarrow> Blocked b
            | Returns s8 \<Rightarrow>
                let s9 = sem_destroy state s8;
                    s10 = s9\<lparr>conns := (conns s9)(conn := (conns s9 conn)
                            \<lparr>data_flags := 0, data_private := None, data_event := None\<rparr>)\<rparr>
                in Returns (irqrestore flags s10))
      else Returns (irqrestore flags s1))"

subsection \<open>The close operation\<close>

text \<open>\<^verbatim>\<open>net_close(sockfd)\<close>; the assignment through \<^verbatim>\<open>get_errno_ptr()\<close> sets \<open>errno\<close>.\<close>

definition net_close ::
  "net_defs \<Rightarrow> addr \<Rightarrow> int \<Rightarrow> event list \<Rightarrow> net_state \<Rightarrow> (int \<times> net_state) outcome" where
  "net_close k state sockfd evs s =
     (case sockfd_socket s sockfd of
        None \<Rightarrow> Returns (ERROR, s\<lparr>errno := EBADF k\<rparr>)
      | Some psock \<Rightarrow>
          if s_crefs (socks s psock) \<le> 0 then Returns (ERROR, s\<lparr>errno := EBADF k\<rparr>)
          else
            (case s_type (socks s psock) of
               SOCK_STREAM \<Rightarrow>
                 let conn = s_conn (socks s psock);
                     s1 = called (Uip_unlisten conn) s
                 in (case netclose_disconnect k state psock evs s1 of
                       Blocked b \<Rightarrow> Blocked b
                     | Returns s2 \<Rightarrow>
                         let s3 = called (Uip_tcpfree conn) s2
                         in Returns (OK, called (Sockfd_release sockfd) s3))
             | SOCK_DGRAM \<Rightarrow>
                 let s1 = called (Uip_udpfree (s_conn (socks s psock))) s
                 in Returns (OK, called (Sockfd_release sockfd) s1)
             | SOCK_OTHER t \<Rightarrow> Returns (ERROR, s\<lparr>errno := EBADF k\<rparr>)))"

subsection \<open>Properties of call sequences\<close>

text \<open>The state in which a call ends, returned or suspended.\<close>

primrec state_of :: "net_state outcome \<Rightarrow> net_state" where
  "state_of (Returns s) = s"
| "state_of (Blocked s) = s"

primrec is_sem_post :: "call \<Rightarrow> bool" where
  "is_sem_post Irqsave = False"
| "is_sem_post (Irqrestore f) = False"
| "is_sem_post (Sem_init p) = False"
| "is_sem_post (Sem_post p) = True"
| "is_sem_post (Sem_wait p) = False"
| "is_sem_post (Sem_destroy p) = False"
| "is_sem_post (Netdev_txnotify a) = False"
| "is_sem_post (Uip_unlisten c) = False"
| "is_sem_post (Uip_tcpfree c) = False"
| "is_sem_post (Uip_udpfree c) = False"
| "is_sem_post (Sockfd_release fd) = False"

text \<open>
  Whether every \<^verbatim>\<open>sem_wait\<close> of a call sequence is made outside the critical section,
  \<open>h\<close> telling whether the section is held at the start of the sequence: \<^verbatim>\<open>irqsave\<close>
  enters the section and \<^verbatim>\<open>irqrestore\<close> puts back the state it is given.
\<close>

fun waits_outside_irq :: "bool \<Rightarrow> call list \<Rightarrow> bool" where
  "waits_outside_irq h [] = True"
| "waits_outside_irq h (Irqsave # cs) = waits_outside_irq True cs"
| "waits_outside_irq h (Irqrestore f # cs) = waits_outside_irq f cs"
| "waits_outside_irq h (Sem_wait p # cs) = (\<not> h \<and> waits_outside_irq h cs)"
| "waits_outside_irq h (c # cs) = waits_outside_irq h cs"

subsection \<open>A concrete configuration and state\<close>

text \<open>
  Example values for the header constants, and a state with five descriptors: 3 is a
  connected stream socket, 4 a datagram socket, 5 a stream socket that is not connected,
  6 a socket without references and 7 a socket of another type. In \<open>ex_pending\<close> a close
  of connection 20 is under way, with its wait context at address 100.
\<close>

definition defs0 :: net_defs where
  "defs0 = \<lparr>UIP_NEWDATA = 2, UIP_CLOSE = 16, UIP_ABORT = 32,
            SS_ISCONNECTED = (\<lambda>f. f AND 0x40 \<noteq> 0), EBADF = 9\<rparr>"

definition ex_socks :: "addr \<Rightarrow> socket" where
  "ex_socks a =
     (if a = 10 then \<lparr>s_crefs = 1, s_type = SOCK_STREAM, s_flags = 0x40, s_conn = 20\<rparr>
      else if a = 11 then \<lparr>s_crefs = 1, s_type = SOCK_DGRAM, s_flags = 0, s_conn = 21\<rparr>
      else if a = 12 then \<lparr>s_crefs = 2, s_type = SOCK_STREAM, s_flags = 0x20, s_conn = 22\<rparr>
      else if a = 13 then \<lparr>s_crefs = 0, s_type = SOCK_STREAM, s_flags = 0x40, s_conn = 23\<rparr>
      else \<lparr>s_crefs = 1, s_type = SOCK_OTHER 3, s_flags = 0, s_conn = 24\<rparr>)"

definition ex_state :: net_state where
  "ex_state =
     \<lparr>sockfd_socket = (\<lambda>fd. if 3 \<le> fd \<and> fd \<le> 7 then Some (nat fd + 7) else None),
      socks = ex_socks,
      conns = (\<lambda>a. \<lparr>data_flags = 0, data_private = None, data_event = None, ripaddr = 1000 + a\<rparr>),
      devs = (\<lambda>a. \<lparr>d_len = 64\<rparr>),
      closes = (\<lambda>a. \<lparr>cl_psock = 0, cl_sem = 0\<rparr>),
      irq_off = False, errno = 0, calls = []\<rparr>"

definition ex_pending :: net_state where
  "ex_pending =
     ex_state\<lparr>conns := (conns ex_state)(20 :=
        \<lparr>data_flags = 0x32, data_private = Some 100, data_event = Some Netclose_interrupt,
         ripaddr = 1020\<rparr>)\<rparr>"

section \<open>The event notifier\<close>

text \<open>The bit operations on the promoted flags, read on the 8-bit flags.\<close>

lemma uint_and_int: "uint (w :: uint8) AND x = uint (w AND word_of_int x)"
  by (rule bit_eqI) (auto simp: bit_and_iff bit_uint_iff bit_word_of_int_iff)

lemma returned_flags:
  "(word_of_int ((uint w AND NOT nd) OR cl) :: uint8) = (w AND NOT (word_of_int nd)) OR word_of_int cl"
  by (rule bit_eqI) (auto simp: bit_and_iff bit_or_iff bit_not_iff bit_uint_iff bit_word_of_int_iff)

text \<open>
  C2. With no wait context attached (\<^verbatim>\<open>data_private\<close> is \<^verbatim>\<open>NULL\<close>),
  \<^verbatim>\<open>netclose_interrupt\<close> returns the flags unchanged, for every flags value, and leaves the
  whole state as it is: the connection record, the device, and no semaphore is posted.
\<close>

theorem netclose_interrupt_no_context:
  "data_private (conns s conn) = None \<Longrightarrow> netclose_interrupt k dev conn flags s = (s, flags)"
  by (simp add: netclose_interrupt_def)

theorem netclose_interrupt_no_context_witness:
  "data_private (conns ex_state 20) = None \<and>
   netclose_interrupt defs0 1 20 0x12 ex_state = (ex_state, 0x12)"
  using netclose_interrupt_no_context [of ex_state 20 defs0 1 "0x12"]
  by (simp add: ex_state_def)

text \<open>
  C3. With a wait context attached and the remote-close or remote-abort bit in the
  flags, \<^verbatim>\<open>netclose_interrupt\<close> clears the connection's event flags, detaches the wait
  context, clears the callback reference, posts the context's semaphore once (one
  \<^verbatim>\<open>sem_post\<close>, the count one higher) and returns the flags unchanged. Every later
  invocation on this connection, and every sequence of them, finds no context and leaves
  the state as it is, so the context is not posted or read again.
\<close>

theorem netclose_interrupt_terminal:
  assumes "data_private (conns s conn) = Some pstate"
    and "uint flags AND (UIP_CLOSE k OR UIP_ABORT k) \<noteq> 0"
  shows "\<exists>s'. netclose_interrupt k dev conn flags s = (s', flags) \<and>
           data_flags (conns s' conn) = 0 \<and>
           data_private (conns s' conn) = None \<and>
           data_event (conns s' conn) = None \<and>
           calls s' = calls s @ [Sem_post pstate] \<and>
           cl_sem (closes s' pstate) = cl_sem (closes s pstate) + 1 \<and>
           (\<forall>dev' flags'. netclose_interrupt k dev' conn flags' s' = (s', flags')) \<and>
           (\<forall>later. foldl (\<lambda>t (dev', flags'). fst (netclose_interrupt k dev' conn flags' t)) s' later = s')"
proof -
  obtain s' where s': "netclose_interrupt k dev conn flags s = (s', flags)"
    using assms by (simp add: netclose_interrupt_def)
  have detached: "data_private (conns s' conn) = None"
    using assms s' by (auto simp: netclose_interrupt_def sem_post_def called_def)
  have again: "netclose_interrupt k dev' conn flags' s' = (s', flags')" for dev' flags'
    using detached by (simp add: netclose_interrupt_def)
  have "foldl (\<lambda>t (dev', flags'). fst (netclose_interrupt k dev' conn flags' t)) s' later = s'"
    for later
    by (induction later) (simp_all add: again split: prod.splits)
  moreover have "data_flags (conns s' conn) = 0" "data_event (conns s' conn) = None"
    "calls s' = calls s @ [Sem_post pstate]"
    "cl_sem (closes s' pstate) = cl_sem (closes s pstate) + 1"
    using assms s' by (auto simp: netclose_interrupt_def sem_post_def called_def)
  ultimately show ?thesis using s' detached again by blast
qed

theorem netclose_interrupt_terminal_witness:
  "data_private (conns ex_pending 20) = Some 100 \<and>
   uint (0x10 :: uint8) AND (UIP_CLOSE defs0 OR UIP_ABORT defs0) \<noteq> 0 \<and>
   (\<exists>s'. netclose_interrupt defs0 1 20 0x10 ex_pending = (s', 0x10) \<and>
      data_flags (conns s' 20) = 0 \<and>
      data_private (conns s' 20) = None \<and>
      data_event (conns s' 20) = None \<and>
      calls s' = [Sem_post 100] \<and>
      cl_sem (closes s' 100) = 1 \<and>
      netclose_interrupt defs0 1 20 0x20 s' = (s', 0x20) \<and>
      foldl (\<lambda>t (dev', flags'). fst (netclose_interrupt defs0 dev' 20 flags' t)) s'
        [(1, 0x02), (1, 0x10)] = s')"
proof -
  have a: "data_private (conns ex_pending 20) = Some 100"
    by (simp add: ex_pending_def)
  have b: "uint (0x10 :: uint8) AND (UIP_CLOSE defs0 OR UIP_ABORT defs0) \<noteq> 0"
    by (simp add: defs0_def)
  have v: "calls ex_pending = []" "cl_sem (closes ex_pending 100) = 0"
    by (simp_all add: ex_pending_def ex_state_def)
  from netclose_interrupt_terminal [OF a b, of 1] obtain s' where
    "netclose_interrupt defs0 1 20 0x10 ex_pending = (s', 0x10)"
    "data_flags (conns s' 20) = 0" "data_private (conns s' 20) = None"
    "data_event (conns s' 20) = None" "calls s' = [Sem_post 100]" "cl_sem (closes s' 100) = 1"
    "\<And>dev' flags'. netclose_interrupt defs0 dev' 20 flags' s' = (s', flags')"
    "\<And>later. foldl (\<lambda>t (dev', flags'). fst (netclose_interrupt defs0 dev' 20 flags' t)) s' later = s'"
    unfolding v by auto
  with a b show ?thesis by blast
qed

text \<open>
  C4. With a wait context attached and neither the remote-close nor the remote-abort bit
  in the flags, \<^verbatim>\<open>netclose_interrupt\<close> posts no semaphore (no call is made and the close
  contexts are as before), sets the device's \<^verbatim>\<open>d_len\<close> to zero and returns the flags with
  the new-data bits cleared and the close bits set: as 8-bit values,
  \<^verbatim>\<open>(flags & ~UIP_NEWDATA) | UIP_CLOSE\<close>.
\<close>

theorem netclose_interrupt_nonterminal:
  assumes "data_private (conns s conn) = Some pstate"
    and "uint flags AND (UIP_CLOSE k OR UIP_ABORT k) = 0"
  shows "netclose_interrupt k dev conn flags s =
           (s\<lparr>devs := (devs s)(dev := (devs s dev)\<lparr>d_len := 0\<rparr>)\<rparr>,
            (flags AND NOT (word_of_int (UIP_NEWDATA k))) OR word_of_int (UIP_CLOSE k)) \<and>
         calls (fst (netclose_interrupt k dev conn flags s)) = calls s \<and>
         closes (fst (netclose_interrupt k dev conn flags s)) = closes s \<and>
         d_len (devs (fst (netclose_interrupt k dev conn flags s)) dev) = 0"
  using assms by (simp add: netclose_interrupt_def returned_flags)

theorem netclose_interrupt_nonterminal_witness:
  "data_private (conns ex_pending 20) = Some 100 \<and>
   uint (0x03 :: uint8) AND (UIP_CLOSE defs0 OR UIP_ABORT defs0) = 0 \<and>
   snd (netclose_interrupt defs0 1 20 0x03 ex_pending) = 0x11 \<and>
   calls (fst (netclose_interrupt defs0 1 20 0x03 ex_pending)) = [] \<and>
   cl_sem (closes (fst (netclose_interrupt defs0 1 20 0x03 ex_pending)) 100) = 0 \<and>
   d_len (devs ex_pending 1) = 64 \<and>
   d_len (devs (fst (netclose_interrupt defs0 1 20 0x03 ex_pending)) 1) = 0"
proof -
  have a: "data_private (conns ex_pending 20) = Some 100"
    by (simp add: ex_pending_def)
  have b: "uint (0x03 :: uint8) AND (UIP_CLOSE defs0 OR UIP_ABORT defs0) = 0"
    by (simp add: defs0_def)
  show ?thesis
    using a b netclose_interrupt_nonterminal [OF a b, of 1]
    by (simp add: ex_pending_def ex_state_def defs0_def)
qed

text \<open>
  C10. For every invocation of \<^verbatim>\<open>netclose_interrupt\<close>: unless a wait context is attached
  and the flags have the remote-close or remote-abort bit, all connection records are
  unchanged; unless a wait context is attached and the flags have neither bit, all devices
  are unchanged. In every case the other connection records, the remote address of this
  one, the other devices, the sockets, the descriptor table, the interrupt state and
  \<^verbatim>\<open>errno\<close> are unchanged; in the terminal case the fields written are \<^verbatim>\<open>data_flags\<close>,
  \<^verbatim>\<open>data_private\<close> and \<^verbatim>\<open>data_event\<close>, in the other case \<^verbatim>\<open>d_len\<close>.
\<close>

theorem netclose_interrupt_frame:
  "(let s' = fst (netclose_interrupt k dev conn flags s);
        attached = (data_private (conns s conn) \<noteq> None);
        terminal = (uint flags AND (UIP_CLOSE k OR UIP_ABORT k) \<noteq> 0)
    in (\<not> (attached \<and> terminal) \<longrightarrow> conns s' = conns s) \<and>
       (\<not> (attached \<and> \<not> terminal) \<longrightarrow> devs s' = devs s) \<and>
       (\<forall>c. c \<noteq> conn \<longrightarrow> conns s' c = conns s c) \<and>
       ripaddr (conns s' conn) = ripaddr (conns s conn) \<and>
       (\<forall>d. d \<noteq> dev \<longrightarrow> devs s' d = devs s d) \<and>
       socks s' = socks s \<and> sockfd_socket s' = sockfd_socket s \<and>
       irq_off s' = irq_off s \<and> errno s' = errno s)"
  by (simp add: netclose_interrupt_def sem_post_def called_def Let_def split: option.splits)

theorem netclose_interrupt_frame_witness:
  "conns (fst (netclose_interrupt defs0 1 20 0x03 ex_pending)) = conns ex_pending \<and>
   devs (fst (netclose_interrupt defs0 1 20 0x10 ex_pending)) = devs ex_pending \<and>
   conns (fst (netclose_interrupt defs0 1 20 0x10 ex_state)) = conns ex_state \<and>
   devs (fst (netclose_interrupt defs0 1 20 0x03 ex_state)) = devs ex_state \<and>
   conns (fst (netclose_interrupt defs0 1 20 0x10 ex_pending)) 21 = conns ex_pending 21 \<and>
   ripaddr (conns (fst (netclose_interrupt defs0 1 20 0x10 ex_pending)) 20) = 1020 \<and>
   devs (fst (netclose_interrupt defs0 1 20 0x03 ex_pending)) 2 = devs ex_pending 2"
proof -
  have a: "data_private (conns ex_pending 20) \<noteq> None" "data_private (conns ex_state 20) = None"
    "ripaddr (conns ex_pending 20) = 1020"
    by (simp_all add: ex_pending_def ex_state_def)
  have b: "uint (0x10 :: uint8) AND (UIP_CLOSE defs0 OR UIP_ABORT defs0) \<noteq> 0"
    "uint (0x03 :: uint8) AND (UIP_CLOSE defs0 OR UIP_ABORT defs0) = 0"
    by (simp_all add: defs0_def)
  show ?thesis
    using a b
      netclose_interrupt_frame [of defs0 1 20 "0x03" ex_pending]
      netclose_interrupt_frame [of defs0 1 20 "0x10" ex_pending]
      netclose_interrupt_frame [of defs0 1 20 "0x03" ex_state]
      netclose_interrupt_frame [of defs0 1 20 "0x10" ex_state]
    by (simp add: Let_def)
qed

section \<open>The wait\<close>

text \<open>An event leaves the sockets, the descriptor table, the interrupt state of the task
  and \<^verbatim>\<open>errno\<close> alone, and the only calls it makes are \<^verbatim>\<open>sem_post\<close>.\<close>

lemma uip_event_frame:
  "socks (uip_event k e s) = socks s \<and> sockfd_socket (uip_event k e s) = sockfd_socket s \<and>
   irq_off (uip_event k e s) = irq_off s \<and> errno (uip_event k e s) = errno s"
  by (simp add: uip_event_def netclose_interrupt_def sem_post_def called_def
      split: prod.splits option.splits handler.splits)

lemma uip_event_calls:
  "\<exists>posts. calls (uip_event k e s) = calls s @ posts \<and> list_all is_sem_post posts"
  by (simp add: uip_event_def netclose_interrupt_def sem_post_def called_def
      split: prod.splits option.splits handler.splits)

lemma sem_block_frame:
  "socks (state_of (sem_block k p evs s)) = socks s \<and>
   sockfd_socket (state_of (sem_block k p evs s)) = sockfd_socket s \<and>
   irq_off (state_of (sem_block k p evs s)) = irq_off s \<and>
   errno (state_of (sem_block k p evs s)) = errno s"
  by (induction evs arbitrary: s) (simp_all add: uip_event_frame)

lemma sem_block_calls:
  "\<exists>posts. calls (state_of (sem_block k p evs s)) = calls s @ posts \<and> list_all is_sem_post posts"
proof (induction evs arbitrary: s)
  case Nil
  show ?case by simp
next
  case (Cons e es)
  show ?case
  proof (cases "0 < cl_sem (closes s p)")
    case True
    then show ?thesis by simp
  next
    case False
    obtain p1 where p1: "calls (uip_event k e s) = calls s @ p1" "list_all is_sem_post p1"
      using uip_event_calls by blast
    obtain p2 where p2:
      "calls (state_of (sem_block k p es (uip_event k e s))) = calls (uip_event k e s) @ p2"
      "list_all is_sem_post p2"
      using Cons.IH by blast
    have "calls (state_of (sem_block k p (e # es) s)) = calls s @ (p1 @ p2)"
      using False p1 p2 by simp
    moreover have "list_all is_sem_post (p1 @ p2)"
      using p1 p2 by simp
    ultimately show ?thesis by blast
  qed
qed

lemma sem_block_posted:
  "0 < cl_sem (closes s p) \<Longrightarrow> \<exists>s'. sem_block k p evs s = Returns s'"
  by (cases evs) simp_all

section \<open>The disconnect coordinator\<close>

text \<open>
  On a connected socket the coordinator reaches \<^verbatim>\<open>sem_wait\<close> in a state \<open>s1\<close> that does
  not depend on the events to come, and goes on from the state in which the wait ends.
\<close>

lemma netclose_disconnect_armed:
  assumes "SS_ISCONNECTED k (s_flags (socks s psock))"
  shows "\<exists>s1.
     closes s1 = (closes s)(state := (closes s state)\<lparr>cl_psock := psock, cl_sem := 0\<rparr>) \<and>
     conns s1 = (conns s)(s_conn (socks s psock) := (conns s (s_conn (socks s psock)))
          \<lparr>data_flags := word_of_int (UIP_NEWDATA k OR UIP_CLOSE k OR UIP_ABORT k),
           data_private := Some state, data_event := Some Netclose_interrupt\<rparr>) \<and>
     irq_off s1 \<and>
     calls s1 = calls s @ [Irqsave, Sem_init state,
                  Netdev_txnotify (ripaddr (conns s (s_conn (socks s psock)))), Sem_wait state] \<and>
     (\<forall>evs. netclose_disconnect k state psock evs s =
       (case sem_block k state evs s1 of
          Blocked b \<Rightarrow> Blocked b
        | Returns s8 \<Rightarrow>
            Returns (s8\<lparr>conns := (conns s8)(s_conn (socks s psock) := (conns s8 (s_conn (socks s psock)))
                            \<lparr>data_flags := 0, data_private := None, data_event := None\<rparr>),
                        irq_off := irq_off s,
                        calls := calls s8 @ [Sem_destroy state, Irqrestore (irq_off s)]\<rparr>)))"
proof -
  define s1 where "s1 =
     s\<lparr>irq_off := True,
       closes := (closes s)(state := (closes s state)\<lparr>cl_psock := psock, cl_sem := 0\<rparr>),
       conns := (conns s)(s_conn (socks s psock) := (conns s (s_conn (socks s psock)))
          \<lparr>data_flags := word_of_int (UIP_NEWDATA k OR UIP_CLOSE k OR UIP_ABORT k),
           data_private := Some state, data_event := Some Netclose_interrupt\<rparr>),
       calls := calls s @ [Irqsave, Sem_init state,
                  Netdev_txnotify (ripaddr (conns s (s_conn (socks s psock)))), Sem_wait state]\<rparr>"
  have run: "netclose_disconnect k state psock evs s =
       (case sem_block k state evs s1 of
          Blocked b \<Rightarrow> Blocked b
        | Returns s8 \<Rightarrow>
            Returns (s8\<lparr>conns := (conns s8)(s_conn (socks s psock) := (conns s8 (s_conn (socks s psock)))
                            \<lparr>data_flags := 0, data_private := None, data_event := None\<rparr>),
                        irq_off := irq_off s,
                        calls := calls s8 @ [Sem_destroy state, Irqrestore (irq_off s)]\<rparr>))" for evs
    using assms
    by (simp add: netclose_disconnect_def irqsave_def irqrestore_def sem_init_def sem_wait_def
        sem_destroy_def called_def Let_def s1_def cong: outcome.case_cong)
  have "closes s1 = (closes s)(state := (closes s state)\<lparr>cl_psock := psock, cl_sem := 0\<rparr>)"
    "conns s1 = (conns s)(s_conn (socks s psock) := (conns s (s_conn (socks s psock)))
          \<lparr>data_flags := word_of_int (UIP_NEWDATA k OR UIP_CLOSE k OR UIP_ABORT k),
           data_private := Some state, data_event := Some Netclose_interrupt\<rparr>)"
    "irq_off s1"
    "calls s1 = calls s @ [Irqsave, Sem_init state,
                  Netdev_txnotify (ripaddr (conns s (s_conn (socks s psock)))), Sem_wait state]"
    by (simp_all add: s1_def)
  with run show ?thesis by blast
qed

lemma netclose_disconnect_idle:
  "\<not> SS_ISCONNECTED k (s_flags (socks s psock)) \<Longrightarrow>
   netclose_disconnect k state psock evs s =
     Returns (s\<lparr>calls := calls s @ [Irqsave, Irqrestore (irq_off s)]\<rparr>)"
  by (simp add: netclose_disconnect_def irqsave_def irqrestore_def called_def)

text \<open>The calls of the coordinator on a connected socket, suspended or returned.\<close>

lemma netclose_disconnect_calls:
  assumes "SS_ISCONNECTED k (s_flags (socks s psock))"
  shows "\<exists>posts. list_all is_sem_post posts \<and>
     (case netclose_disconnect k state psock evs s of
        Blocked b \<Rightarrow>
          calls b = calls s @ [Irqsave, Sem_init state,
                      Netdev_txnotify (ripaddr (conns s (s_conn (socks s psock)))), Sem_wait state] @ posts \<and>
          irq_off b
      | Returns s' \<Rightarrow>
          calls s' = calls s @ [Irqsave, Sem_init state,
                      Netdev_txnotify (ripaddr (conns s (s_conn (socks s psock)))), Sem_wait state] @ posts @
                     [Sem_destroy state, Irqrestore (irq_off s)] \<and>
          irq_off s' = irq_off s)"
proof -
  obtain s1 where s1: "irq_off s1"
    "calls s1 = calls s @ [Irqsave, Sem_init state,
                  Netdev_txnotify (ripaddr (conns s (s_conn (socks s psock)))), Sem_wait state]"
    and run: "netclose_disconnect k state psock evs s =
       (case sem_block k state evs s1 of
          Blocked b \<Rightarrow> Blocked b
        | Returns s8 \<Rightarrow>
            Returns (s8\<lparr>conns := (conns s8)(s_conn (socks s psock) := (conns s8 (s_conn (socks s psock)))
                            \<lparr>data_flags := 0, data_private := None, data_event := None\<rparr>),
                        irq_off := irq_off s,
                        calls := calls s8 @ [Sem_destroy state, Irqrestore (irq_off s)]\<rparr>))"
    using netclose_disconnect_armed [OF assms, of state] by blast
  obtain posts where posts: "calls (state_of (sem_block k state evs s1)) = calls s1 @ posts"
    "list_all is_sem_post posts"
    using sem_block_calls by blast
  have irq: "irq_off (state_of (sem_block k state evs s1)) = irq_off s1"
    by (simp add: sem_block_frame)
  show ?thesis
  proof (cases "sem_block k state evs s1")
    case (Returns s8)
    with run s1 posts irq show ?thesis by auto
  next
    case (Blocked b)
    with run s1 posts irq show ?thesis by auto
  qed
qed

text \<open>
  C7. On a socket that is not connected, \<^verbatim>\<open>netclose_disconnect\<close> returns, whatever the
  events, and besides the calls of \<^verbatim>\<open>irqsave\<close> and \<^verbatim>\<open>irqrestore\<close> (which puts back the
  interrupt state found at entry) the state is unchanged: no wait context is attached, no
  callback installed, no event flags written, the link layer not notified, no wait.
\<close>

theorem netclose_disconnect_not_connected:
  "\<not> SS_ISCONNECTED k (s_flags (socks s psock)) \<Longrightarrow>
   netclose_disconnect k state psock evs s =
     Returns (s\<lparr>calls := calls s @ [Irqsave, Irqrestore (irq_off s)]\<rparr>)"
  by (simp add: netclose_disconnect_def irqsave_def irqrestore_def called_def)

theorem netclose_disconnect_not_connected_witness:
  "\<not> SS_ISCONNECTED defs0 (s_flags (socks ex_state 12)) \<and>
   netclose_disconnect defs0 100 12 [(1, 22, 0x10)] ex_state =
     Returns (ex_state\<lparr>calls := [Irqsave, Irqrestore False]\<rparr>)"
proof -
  have h: "\<not> SS_ISCONNECTED defs0 (s_flags (socks ex_state 12))"
    by (simp add: defs0_def ex_state_def ex_socks_def)
  show ?thesis
    using h netclose_disconnect_not_connected [OF h, of 100 "[(1, 22, 0x10)]"]
    by (simp add: ex_state_def)
qed

text \<open>
  C8. On a connected socket, \<^verbatim>\<open>netclose_disconnect\<close> reaches its wait in a state \<open>s1\<close>
  in which the wait context refers to the socket and its semaphore is zero, the context is
  attached to the connection record, the event flags are
  \<^verbatim>\<open>UIP_NEWDATA|UIP_CLOSE|UIP_ABORT\<close>, the callback is \<^verbatim>\<open>netclose_interrupt\<close>, and
  \<^verbatim>\<open>netdev_txnotify\<close> has been called before \<^verbatim>\<open>sem_wait\<close>. It blocks there: with no event
  it stays suspended in \<open>s1\<close>, and with events it goes on from the wait that starts in
  \<open>s1\<close>. Whenever it returns, the connection's event flags are zero and its wait-context
  and callback references are \<^verbatim>\<open>NULL\<close>; and it does return when the first event for the
  connection is a remote close or abort.
\<close>

theorem netclose_disconnect_connected:
  assumes "SS_ISCONNECTED k (s_flags (socks s psock))"
  shows "\<exists>s1.
     cl_psock (closes s1 state) = psock \<and>
     cl_sem (closes s1 state) = 0 \<and>
     data_private (conns s1 (s_conn (socks s psock))) = Some state \<and>
     data_flags (conns s1 (s_conn (socks s psock))) =
       word_of_int (UIP_NEWDATA k OR UIP_CLOSE k OR UIP_ABORT k) \<and>
     data_event (conns s1 (s_conn (socks s psock))) = Some Netclose_interrupt \<and>
     calls s1 = calls s @ [Irqsave, Sem_init state,
                  Netdev_txnotify (ripaddr (conns s (s_conn (socks s psock)))), Sem_wait state] \<and>
     netclose_disconnect k state psock [] s = Blocked s1 \<and>
     (\<forall>evs. netclose_disconnect k state psock evs s =
       (case sem_block k state evs s1 of
          Blocked b \<Rightarrow> Blocked b
        | Returns s8 \<Rightarrow>
            Returns (s8\<lparr>conns := (conns s8)(s_conn (socks s psock) := (conns s8 (s_conn (socks s psock)))
                            \<lparr>data_flags := 0, data_private := None, data_event := None\<rparr>),
                        irq_off := irq_off s,
                        calls := calls s8 @ [Sem_destroy state, Irqrestore (irq_off s)]\<rparr>))) \<and>
     (\<forall>evs s'. netclose_disconnect k state psock evs s = Returns s' \<longrightarrow>
        data_flags (conns s' (s_conn (socks s psock))) = 0 \<and>
        data_private (conns s' (s_conn (socks s psock))) = None \<and>
        data_event (conns s' (s_conn (socks s psock))) = None) \<and>
     (\<forall>dev flags evs. uint flags AND (UIP_CLOSE k OR UIP_ABORT k) \<noteq> 0 \<longrightarrow>
        (\<exists>s'. netclose_disconnect k state psock ((dev, s_conn (socks s psock), flags) # evs) s =
           Returns s'))"
proof -
  let ?c = "s_conn (socks s psock)"
  obtain s1 where s1:
    "closes s1 = (closes s)(state := (closes s state)\<lparr>cl_psock := psock, cl_sem := 0\<rparr>)"
    "conns s1 = (conns s)(?c := (conns s ?c)
          \<lparr>data_flags := word_of_int (UIP_NEWDATA k OR UIP_CLOSE k OR UIP_ABORT k),
           data_private := Some state, data_event := Some Netclose_interrupt\<rparr>)"
    "calls s1 = calls s @ [Irqsave, Sem_init state, Netdev_txnotify (ripaddr (conns s ?c)), Sem_wait state]"
    and run: "\<And>evs. netclose_disconnect k state psock evs s =
       (case sem_block k state evs s1 of
          Blocked b \<Rightarrow> Blocked b
        | Returns s8 \<Rightarrow>
            Returns (s8\<lparr>conns := (conns s8)(?c := (conns s8 ?c)
                            \<lparr>data_flags := 0, data_private := None, data_event := None\<rparr>),
                        irq_off := irq_off s,
                        calls := calls s8 @ [Sem_destroy state, Irqrestore (irq_off s)]\<rparr>))"
    using netclose_disconnect_armed [OF assms, of state] by blast
  have blocked: "netclose_disconnect k state psock [] s = Blocked s1"
    using s1(1) by (simp add: run)
  have cleared: "data_flags (conns s' ?c) = 0 \<and> data_private (conns s' ?c) = None \<and>
      data_event (conns s' ?c) = None"
    if "netclose_disconnect k state psock evs s = Returns s'" for evs s'
    using that by (auto simp: run split: outcome.splits)
  have released: "\<exists>s'. netclose_disconnect k state psock ((dev, ?c, flags) # evs) s = Returns s'"
    if t: "uint flags AND (UIP_CLOSE k OR UIP_ABORT k) \<noteq> 0" for dev flags evs
  proof -
    have "0 < cl_sem (closes (uip_event k (dev, ?c, flags) s1) state)"
      using t s1(1,2) by (simp add: uip_event_def netclose_interrupt_def sem_post_def called_def)
    then obtain s8 where "sem_block k state evs (uip_event k (dev, ?c, flags) s1) = Returns s8"
      using sem_block_posted by blast
    then show ?thesis using s1(1) by (simp add: run)
  qed
  show ?thesis
    using s1 run blocked cleared released by (intro exI [of _ s1]) simp
qed

theorem netclose_disconnect_connected_witness:
  "SS_ISCONNECTED defs0 (s_flags (socks ex_state 10)) \<and>
   (\<exists>s1. netclose_disconnect defs0 100 10 [] ex_state = Blocked s1 \<and>
      cl_psock (closes s1 100) = 10 \<and> cl_sem (closes s1 100) = 0 \<and>
      data_private (conns s1 20) = Some 100 \<and> data_flags (conns s1 20) = 0x32 \<and>
      data_event (conns s1 20) = Some Netclose_interrupt \<and>
      calls s1 = [Irqsave, Sem_init 100, Netdev_txnotify 1020, Sem_wait 100]) \<and>
   (\<exists>s'. netclose_disconnect defs0 100 10 [(1, 20, 0x10)] ex_state = Returns s' \<and>
      data_flags (conns s' 20) = 0 \<and> data_private (conns s' 20) = None \<and>
      data_event (conns s' 20) = None)"
proof -
  have h: "SS_ISCONNECTED defs0 (s_flags (socks ex_state 10))"
    by (simp add: defs0_def ex_state_def ex_socks_def)
  have c: "s_conn (socks ex_state 10) = 20"
    by (simp add: ex_state_def ex_socks_def)
  have t: "uint (0x10 :: uint8) AND (UIP_CLOSE defs0 OR UIP_ABORT defs0) \<noteq> 0"
    by (simp add: defs0_def)
  have v: "(word_of_int (UIP_NEWDATA defs0 OR UIP_CLOSE defs0 OR UIP_ABORT defs0) :: uint8) = 0x32"
    "calls ex_state = []" "ripaddr (conns ex_state 20) = 1020"
    by (simp_all add: defs0_def ex_state_def)
  from netclose_disconnect_connected [OF h, of 100] obtain s1 where s1:
    "cl_psock (closes s1 100) = 10" "cl_sem (closes s1 100) = 0"
    "data_private (conns s1 20) = Some 100" "data_flags (conns s1 20) = 0x32"
    "data_event (conns s1 20) = Some Netclose_interrupt"
    "calls s1 = [Irqsave, Sem_init 100, Netdev_txnotify 1020, Sem_wait 100]"
    "netclose_disconnect defs0 100 10 [] ex_state = Blocked s1"
    and cleared: "\<And>evs s'. netclose_disconnect defs0 100 10 evs ex_state = Returns s' \<Longrightarrow>
        data_flags (conns s' 20) = 0 \<and> data_private (conns s' 20) = None \<and>
        data_event (conns s' 20) = None"
    and released: "\<And>dev flags evs. uint flags AND (UIP_CLOSE defs0 OR UIP_ABORT defs0) \<noteq> 0 \<Longrightarrow>
        \<exists>s'. netclose_disconnect defs0 100 10 ((dev, 20, flags) # evs) ex_state = Returns s'"
    unfolding c v by auto
  from released [OF t, of 1 "[]"] obtain s' where
    "netclose_disconnect defs0 100 10 [(1, 20, 0x10)] ex_state = Returns s'" by blast
  with cleared [OF this] s1 h show ?thesis by blast
qed

text \<open>
  C1, as the code has it. \<^verbatim>\<open>netclose_disconnect\<close> does not leave its critical section
  before it waits. On a connected socket its calls are \<^verbatim>\<open>irqsave\<close>, \<^verbatim>\<open>sem_init\<close>,
  \<^verbatim>\<open>netdev_txnotify\<close> and \<^verbatim>\<open>sem_wait\<close>, with no \<^verbatim>\<open>irqrestore\<close> in between, so the wait
  is made with the section held and the task is suspended with its interrupts disabled;
  the calls made during the wait are \<^verbatim>\<open>sem_post\<close> only; and when the wait ends the
  remaining calls are \<^verbatim>\<open>sem_destroy\<close> and then the one \<^verbatim>\<open>irqrestore\<close>, which puts back
  the interrupt state found at entry.
\<close>

theorem netclose_disconnect_waits_inside:
  assumes "SS_ISCONNECTED k (s_flags (socks s psock))"
  shows "(\<exists>posts. list_all is_sem_post posts \<and>
     (case netclose_disconnect k state psock evs s of
        Blocked b \<Rightarrow>
          calls b = calls s @ [Irqsave, Sem_init state,
                      Netdev_txnotify (ripaddr (conns s (s_conn (socks s psock)))), Sem_wait state] @ posts \<and>
          irq_off b
      | Returns s' \<Rightarrow>
          calls s' = calls s @ [Irqsave, Sem_init state,
                      Netdev_txnotify (ripaddr (conns s (s_conn (socks s psock)))), Sem_wait state] @ posts @
                     [Sem_destroy state, Irqrestore (irq_off s)] \<and>
          irq_off s' = irq_off s)) \<and>
     \<not> waits_outside_irq (irq_off s)
       (drop (length (calls s)) (calls (state_of (netclose_disconnect k state psock evs s))))"
proof -
  obtain posts where posts: "list_all is_sem_post posts"
     "(case netclose_disconnect k state psock evs s of
        Blocked b \<Rightarrow>
          calls b = calls s @ [Irqsave, Sem_init state,
                      Netdev_txnotify (ripaddr (conns s (s_conn (socks s psock)))), Sem_wait state] @ posts \<and>
          irq_off b
      | Returns s' \<Rightarrow>
          calls s' = calls s @ [Irqsave, Sem_init state,
                      Netdev_txnotify (ripaddr (conns s (s_conn (socks s psock)))), Sem_wait state] @ posts @
                     [Sem_destroy state, Irqrestore (irq_off s)] \<and>
          irq_off s' = irq_off s)"
    using netclose_disconnect_calls [OF assms] by blast
  have "\<not> waits_outside_irq (irq_off s)
       (drop (length (calls s)) (calls (state_of (netclose_disconnect k state psock evs s))))"
    using posts(2) by (cases "netclose_disconnect k state psock evs s") simp_all
  with posts show ?thesis by blast
qed

theorem netclose_disconnect_waits_inside_witness:
  "SS_ISCONNECTED defs0 (s_flags (socks ex_state 10)) \<and>
   \<not> waits_outside_irq False
       (calls (state_of (netclose_disconnect defs0 100 10 [(1, 20, 0x02)] ex_state)))"
proof -
  have h: "SS_ISCONNECTED defs0 (s_flags (socks ex_state 10))"
    by (simp add: defs0_def ex_state_def ex_socks_def)
  have v: "irq_off ex_state = False" "calls ex_state = []"
    by (simp_all add: ex_state_def)
  show ?thesis
    using h netclose_disconnect_waits_inside [OF h, of 100 "[(1, 20, 0x02)]"]
    by (simp add: v)
qed

text \<open>
  The claim C1 as it is stated, that the wait never occurs while the critical section
  entered at the start is held, fails on the close of the connected socket 10 when the
  peer's close arrives: the calls are as listed, with \<^verbatim>\<open>sem_wait\<close> after \<^verbatim>\<open>irqsave\<close> and
  before the only \<^verbatim>\<open>irqrestore\<close>.
\<close>

theorem netclose_disconnect_waits_outside_counterexample:
  "SS_ISCONNECTED defs0 (s_flags (socks ex_state 10)) \<and>
   calls (state_of (netclose_disconnect defs0 100 10 [(1, 20, 0x10)] ex_state)) =
     [Irqsave, Sem_init 100, Netdev_txnotify 1020, Sem_wait 100, Sem_post 100, Sem_destroy 100,
      Irqrestore False] \<and>
   \<not> waits_outside_irq (irq_off ex_state)
       (drop (length (calls ex_state))
          (calls (state_of (netclose_disconnect defs0 100 10 [(1, 20, 0x10)] ex_state))))"
  by (simp add: netclose_disconnect_def irqsave_def irqrestore_def sem_init_def sem_wait_def
        sem_destroy_def called_def Let_def uip_event_def netclose_interrupt_def sem_post_def
        defs0_def ex_state_def ex_socks_def)

section \<open>The close operation\<close>

text \<open>
  C5. When the descriptor resolves to no socket, or to a socket whose reference count is
  not positive, or to a socket that is neither \<^verbatim>\<open>SOCK_STREAM\<close> nor \<^verbatim>\<open>SOCK_DGRAM\<close>,
  \<^verbatim>\<open>net_close\<close> returns \<^verbatim>\<open>ERROR\<close> with \<^verbatim>\<open>errno\<close> set to \<^verbatim>\<open>EBADF\<close>, and nothing else of
  the state changes: no call is made (no teardown) and no connection record is written.
\<close>

theorem net_close_invalid:
  assumes "sockfd_socket s sockfd = None \<or>
     (\<exists>psock. sockfd_socket s sockfd = Some psock \<and>
        (s_crefs (socks s psock) \<le> 0 \<or>
         (s_type (socks s psock) \<noteq> SOCK_STREAM \<and> s_type (socks s psock) \<noteq> SOCK_DGRAM)))"
  shows "net_close k state sockfd evs s = Returns (ERROR, s\<lparr>errno := EBADF k\<rparr>) \<and>
         ERROR \<noteq> OK \<and>
         calls (s\<lparr>errno := EBADF k\<rparr>) = calls s \<and>
         conns (s\<lparr>errno := EBADF k\<rparr>) = conns s"
  using assms by (auto simp: net_close_def ERROR_def OK_def split: sock_type.splits)

theorem net_close_invalid_witness:
  "sockfd_socket ex_state 8 = None \<and>
   net_close defs0 100 8 [] ex_state = Returns (- 1, ex_state\<lparr>errno := 9\<rparr>) \<and>
   sockfd_socket ex_state 6 = Some 13 \<and> s_crefs (socks ex_state 13) \<le> 0 \<and>
   net_close defs0 100 6 [] ex_state = Returns (- 1, ex_state\<lparr>errno := 9\<rparr>) \<and>
   sockfd_socket ex_state 7 = Some 14 \<and> s_type (socks ex_state 14) = SOCK_OTHER 3 \<and>
   net_close defs0 100 7 [] ex_state = Returns (- 1, ex_state\<lparr>errno := 9\<rparr>)"
proof -
  have a: "sockfd_socket ex_state 8 = None"
    by (simp add: ex_state_def)
  have b: "sockfd_socket ex_state 6 = Some 13" "s_crefs (socks ex_state 13) \<le> 0"
    by (simp_all add: ex_state_def ex_socks_def)
  have c: "sockfd_socket ex_state 7 = Some 14" "s_type (socks ex_state 14) = SOCK_OTHER 3"
    by (simp_all add: ex_state_def ex_socks_def)
  have v: "EBADF defs0 = 9" "ERROR = - 1"
    by (simp_all add: defs0_def ERROR_def)
  show ?thesis
    using a b c
      net_close_invalid [of ex_state 8 defs0 100 "[]"]
      net_close_invalid [of ex_state 6 defs0 100 "[]"]
      net_close_invalid [of ex_state 7 defs0 100 "[]"]
    by (simp add: v)
qed

text \<open>
  C6. For a valid \<^verbatim>\<open>SOCK_DGRAM\<close> socket, \<^verbatim>\<open>net_close\<close> returns \<^verbatim>\<open>OK\<close>, whatever the
  events, and its only effects are the calls \<^verbatim>\<open>uip_udpfree\<close> on the socket's connection
  and then \<^verbatim>\<open>sockfd_release\<close> on the descriptor: the coordinator is not run (no
  \<^verbatim>\<open>irqsave\<close>, no semaphore call), no wait context is attached and nothing blocks.
\<close>

theorem net_close_dgram:
  assumes "sockfd_socket s sockfd = Some psock"
    and "0 < s_crefs (socks s psock)"
    and "s_type (socks s psock) = SOCK_DGRAM"
  shows "net_close k state sockfd evs s =
     Returns (OK, s\<lparr>calls := calls s @ [Uip_udpfree (s_conn (socks s psock)), Sockfd_release sockfd]\<rparr>)"
  using assms by (simp add: net_close_def called_def)

theorem net_close_dgram_witness:
  "sockfd_socket ex_state 4 = Some 11 \<and> 0 < s_crefs (socks ex_state 11) \<and>
   s_type (socks ex_state 11) = SOCK_DGRAM \<and>
   net_close defs0 100 4 [(1, 21, 0x02)] ex_state =
     Returns (0, ex_state\<lparr>calls := [Uip_udpfree 21, Sockfd_release 4]\<rparr>)"
proof -
  have a: "sockfd_socket ex_state 4 = Some 11" "0 < s_crefs (socks ex_state 11)"
    "s_type (socks ex_state 11) = SOCK_DGRAM"
    by (simp_all add: ex_state_def ex_socks_def)
  have v: "s_conn (socks ex_state 11) = 21" "calls ex_state = []" "OK = 0"
    by (simp_all add: ex_state_def ex_socks_def OK_def)
  show ?thesis
    using a net_close_dgram [OF a, of defs0 100 "[(1, 21, 0x02)]"]
    by (simp add: v)
qed

text \<open>A stream close is the coordinator run between \<^verbatim>\<open>uip_unlisten\<close> and \<^verbatim>\<open>uip_tcpfree\<close>.\<close>

lemma net_close_stream_run:
  assumes "sockfd_socket s sockfd = Some psock"
    and "0 < s_crefs (socks s psock)"
    and "s_type (socks s psock) = SOCK_STREAM"
  shows "net_close k state sockfd evs s =
     (case netclose_disconnect k state psock evs
             (s\<lparr>calls := calls s @ [Uip_unlisten (s_conn (socks s psock))]\<rparr>) of
        Blocked b \<Rightarrow> Blocked b
      | Returns s2 \<Rightarrow>
          Returns (OK, s2\<lparr>calls := calls s2 @
                     [Uip_tcpfree (s_conn (socks s psock)), Sockfd_release sockfd]\<rparr>))"
  using assms by (simp add: net_close_def called_def Let_def cong: outcome.case_cong)

text \<open>
  C9. For a valid \<^verbatim>\<open>SOCK_STREAM\<close> socket, \<^verbatim>\<open>net_close\<close> calls \<^verbatim>\<open>uip_unlisten\<close>, then
  runs \<^verbatim>\<open>netclose_disconnect\<close> to its end, and when that returns calls \<^verbatim>\<open>uip_tcpfree\<close>,
  then \<^verbatim>\<open>sockfd_release\<close>, and returns \<^verbatim>\<open>OK\<close>. The calls are, in this order:
  \<^verbatim>\<open>uip_unlisten\<close>; the coordinator's, from \<^verbatim>\<open>irqsave\<close> to \<^verbatim>\<open>irqrestore\<close>;
  \<^verbatim>\<open>uip_tcpfree\<close>; \<^verbatim>\<open>sockfd_release\<close>. While the coordinator is suspended only
  \<^verbatim>\<open>uip_unlisten\<close> and the coordinator's calls up to the wait have been made. On a socket
  that is not connected the close returns \<^verbatim>\<open>OK\<close> whatever the events.
\<close>

theorem net_close_stream:
  assumes "sockfd_socket s sockfd = Some psock"
    and "0 < s_crefs (socks s psock)"
    and "s_type (socks s psock) = SOCK_STREAM"
  shows "net_close k state sockfd evs s =
     (case netclose_disconnect k state psock evs
             (s\<lparr>calls := calls s @ [Uip_unlisten (s_conn (socks s psock))]\<rparr>) of
        Blocked b \<Rightarrow> Blocked b
      | Returns s2 \<Rightarrow>
          Returns (OK, s2\<lparr>calls := calls s2 @
                     [Uip_tcpfree (s_conn (socks s psock)), Sockfd_release sockfd]\<rparr>)) \<and>
     (if SS_ISCONNECTED k (s_flags (socks s psock))
      then \<exists>posts. list_all is_sem_post posts \<and>
        (case net_close k state sockfd evs s of
           Blocked b \<Rightarrow>
             calls b = calls s @ [Uip_unlisten (s_conn (socks s psock)), Irqsave, Sem_init state,
               Netdev_txnotify (ripaddr (conns s (s_conn (socks s psock)))), Sem_wait state] @ posts
         | Returns (r, s') \<Rightarrow> r = OK \<and>
             calls s' = calls s @ [Uip_unlisten (s_conn (socks s psock)), Irqsave, Sem_init state,
               Netdev_txnotify (ripaddr (conns s (s_conn (socks s psock)))), Sem_wait state] @ posts @
               [Sem_destroy state, Irqrestore (irq_off s),
                Uip_tcpfree (s_conn (socks s psock)), Sockfd_release sockfd])
      else net_close k state sockfd evs s =
        Returns (OK, s\<lparr>calls := calls s @ [Uip_unlisten (s_conn (socks s psock)), Irqsave,
          Irqrestore (irq_off s), Uip_tcpfree (s_conn (socks s psock)), Sockfd_release sockfd]\<rparr>))"
proof -
  let ?c = "s_conn (socks s psock)"
  let ?s1 = "s\<lparr>calls := calls s @ [Uip_unlisten ?c]\<rparr>"
  note run = net_close_stream_run [OF assms, of k state evs]
  have shape: "if SS_ISCONNECTED k (s_flags (socks s psock))
      then \<exists>posts. list_all is_sem_post posts \<and>
        (case net_close k state sockfd evs s of
           Blocked b \<Rightarrow>
             calls b = calls s @ [Uip_unlisten ?c, Irqsave, Sem_init state,
               Netdev_txnotify (ripaddr (conns s ?c)), Sem_wait state] @ posts
         | Returns (r, s') \<Rightarrow> r = OK \<and>
             calls s' = calls s @ [Uip_unlisten ?c, Irqsave, Sem_init state,
               Netdev_txnotify (ripaddr (conns s ?c)), Sem_wait state] @ posts @
               [Sem_destroy state, Irqrestore (irq_off s), Uip_tcpfree ?c, Sockfd_release sockfd])
      else net_close k state sockfd evs s =
        Returns (OK, s\<lparr>calls := calls s @ [Uip_unlisten ?c, Irqsave,
          Irqrestore (irq_off s), Uip_tcpfree ?c, Sockfd_release sockfd]\<rparr>)"
  proof (cases "SS_ISCONNECTED k (s_flags (socks s psock))")
    case False
    then have "\<not> SS_ISCONNECTED k (s_flags (socks ?s1 psock))" by simp
    from netclose_disconnect_idle [OF this, of state evs] False show ?thesis
      by (simp add: run)
  next
    case True
    then have "SS_ISCONNECTED k (s_flags (socks ?s1 psock))" by simp
    from netclose_disconnect_calls [OF this, of state evs]
    obtain posts where posts: "list_all is_sem_post posts"
      "(case netclose_disconnect k state psock evs ?s1 of
        Blocked b \<Rightarrow>
          calls b = calls ?s1 @ [Irqsave, Sem_init state,
                      Netdev_txnotify (ripaddr (conns ?s1 (s_conn (socks ?s1 psock)))), Sem_wait state] @ posts \<and>
          irq_off b
      | Returns s' \<Rightarrow>
          calls s' = calls ?s1 @ [Irqsave, Sem_init state,
                      Netdev_txnotify (ripaddr (conns ?s1 (s_conn (socks ?s1 psock)))), Sem_wait state] @ posts @
                     [Sem_destroy state, Irqrestore (irq_off ?s1)] \<and>
          irq_off s' = irq_off ?s1)"
      by blast
    have "case net_close k state sockfd evs s of
           Blocked b \<Rightarrow>
             calls b = calls s @ [Uip_unlisten ?c, Irqsave, Sem_init state,
               Netdev_txnotify (ripaddr (conns s ?c)), Sem_wait state] @ posts
         | Returns (r, s') \<Rightarrow> r = OK \<and>
             calls s' = calls s @ [Uip_unlisten ?c, Irqsave, Sem_init state,
               Netdev_txnotify (ripaddr (conns s ?c)), Sem_wait state] @ posts @
               [Sem_destroy state, Irqrestore (irq_off s), Uip_tcpfree ?c, Sockfd_release sockfd]"
      using posts(2) by (cases "netclose_disconnect k state psock evs ?s1") (simp_all add: run)
    with posts(1) True show ?thesis by auto
  qed
  from run shape show ?thesis by (rule conjI)
qed

theorem net_close_stream_witness:
  "sockfd_socket ex_state 3 = Some 10 \<and> 0 < s_crefs (socks ex_state 10) \<and>
   s_type (socks ex_state 10) = SOCK_STREAM \<and>
   net_close defs0 100 3 [(2, 20, 0x02), (2, 20, 0x20)] ex_state =
     Returns (0, ex_state\<lparr>
       devs := (devs ex_state)(2 := \<lparr>d_len = 0\<rparr>),
       closes := (closes ex_state)(100 := \<lparr>cl_psock = 10, cl_sem = 0\<rparr>),
       calls := [Uip_unlisten 20, Irqsave, Sem_init 100, Netdev_txnotify 1020, Sem_wait 100,
                 Sem_post 100, Sem_destroy 100, Irqrestore False, Uip_tcpfree 20,
                 Sockfd_release 3]\<rparr>)"
proof -
  have a: "sockfd_socket ex_state 3 = Some 10" "0 < s_crefs (socks ex_state 10)"
    "s_type (socks ex_state 10) = SOCK_STREAM"
    by (simp_all add: ex_state_def ex_socks_def)
  have v: "s_conn (socks ex_state 10) = 20" "calls ex_state = []" "OK = 0"
    by (simp_all add: ex_state_def ex_socks_def OK_def)
  have run: "netclose_disconnect defs0 100 10 [(2, 20, 0x02), (2, 20, 0x20)]
               (ex_state\<lparr>calls := [Uip_unlisten 20]\<rparr>) =
             Returns (ex_state\<lparr>
               devs := (devs ex_state)(2 := \<lparr>d_len = 0\<rparr>),
               closes := (closes ex_state)(100 := \<lparr>cl_psock = 10, cl_sem = 0\<rparr>),
               calls := [Uip_unlisten 20, Irqsave, Sem_init 100, Netdev_txnotify 1020, Sem_wait 100,
                         Sem_post 100, Sem_destroy 100, Irqrestore False]\<rparr>)"
    by (simp add: netclose_disconnect_def irqsave_def irqrestore_def sem_init_def sem_wait_def
        sem_destroy_def called_def Let_def uip_event_def netclose_interrupt_def sem_post_def
        defs0_def ex_state_def ex_socks_def fun_eq_iff)
  show ?thesis
    using a net_close_stream [OF a, of defs0 100 "[(2, 20, 0x02), (2, 20, 0x20)]"]
    by (simp add: v run)
qed

end
